theory Spec2Isabelle
  imports Main "HOL-Library.Word"
begin

unbundle bit_operations_syntax

section \<open>Go's float64: IEEE-754 binary64 on bit patterns\<close>

text \<open>
  The package \<^verbatim>\<open>math3d\<close> computes on Go's \<^verbatim>\<open>float64\<close>. A \<^verbatim>\<open>float64\<close> is modelled as
  the 64-bit pattern that \<^verbatim>\<open>math.Float64bits\<close> returns: bit 63 is the sign, bits 62..52
  the biased exponent, bits 51..0 the fraction. Every bit pattern is a value of the type,
  so no well-formedness side condition is needed anywhere.

  Arithmetic is round-to-nearest, ties-to-even, one rounding per operation (the
  behaviour of the amd64 port, which does not fuse a multiplication with an addition).
  Every operation that produces a NaN produces the one quiet NaN \<open>quiet_nan\<close>; Go does
  not fix the payload of a NaN and nothing below depends on it.
\<close>

type_synonym float64 = "64 word"

definition sign_bit :: "float64 \<Rightarrow> bool" where
  "sign_bit w = bit w 63"

definition magnitude :: "float64 \<Rightarrow> nat" where
  "magnitude w = unat (take_bit 63 w)"

text \<open>
  The decoded form of a bit pattern. \<open>Finite s m e\<close> stands for the number
  \<open>(-1)\<^sup>s \<sqdot> m \<sqdot> 2\<^sup>e\<close>; subnormals and both zeros have \<open>e = -1074\<close>.
\<close>

datatype fview = NaN | Infinity bool | Finite bool nat int

definition view :: "float64 \<Rightarrow> fview" where
  "view w =
     (let E = magnitude w div 2 ^ 52; F = magnitude w mod 2 ^ 52; s = sign_bit w
      in if E = 2047 then (if F = 0 then Infinity s else NaN)
         else if E = 0 then Finite s F (- 1074)
         else Finite s (2 ^ 52 + F) (int E - 1075))"

definition pack :: "bool \<Rightarrow> nat \<Rightarrow> float64" where
  "pack s k = (if s then push_bit 63 1 else 0) OR word_of_nat k"

definition inf_bits :: nat where
  "inf_bits = 2047 * 2 ^ 52"

definition quiet_nan :: float64 where
  "quiet_nan = pack False (inf_bits + 2 ^ 51)"

definition is_nan :: "float64 \<Rightarrow> bool" where
  "is_nan w = (view w = NaN)"

definition is_inf :: "float64 \<Rightarrow> bool" where
  "is_inf w = (case view w of Infinity s \<Rightarrow> True | _ \<Rightarrow> False)"

definition is_finite :: "float64 \<Rightarrow> bool" where
  "is_finite w = (case view w of Finite s m e \<Rightarrow> True | _ \<Rightarrow> False)"

definition is_zero :: "float64 \<Rightarrow> bool" where
  "is_zero w = (case view w of Finite s m e \<Rightarrow> m = 0 | _ \<Rightarrow> False)"

subsection \<open>Rounding to nearest, ties to even\<close>

fun bitlen :: "nat \<Rightarrow> nat" where
  "bitlen n = (if n = 0 then 0 else Suc (bitlen (n div 2)))"

declare bitlen.simps [simp del]

text \<open>\<open>scale_frac p q t\<close> is the fraction \<open>(p / q) / 2\<^sup>t\<close> as numerator and denominator.\<close>

definition scale_frac :: "nat \<Rightarrow> nat \<Rightarrow> int \<Rightarrow> nat \<times> nat" where
  "scale_frac p q t = (if 0 \<le> t then (p, q * 2 ^ nat t) else (p * 2 ^ nat (- t), q))"

text \<open>
  \<open>round_pack s p q e\<close> is the float64 nearest to \<open>(-1)\<^sup>s \<sqdot> (p / q) \<sqdot> 2\<^sup>e\<close>.
  \<open>ulp_exponent\<close> chooses the exponent \<open>t\<close> of the result's last place: the one at
  which the quotient has 53 bits, or \<open>-1074\<close> in the subnormal range.
\<close>

definition ulp_exponent :: "nat \<Rightarrow> nat \<Rightarrow> int \<Rightarrow> int" where
  "ulp_exponent p q e =
     (let t0 = e + int (bitlen p) - int (bitlen q) - 53;
          (n0, d0) = scale_frac p q (t0 - e)
      in max (if 2 ^ 53 \<le> n0 div d0 then t0 + 1 else t0) (- 1074))"

text \<open>The integer nearest to \<open>n / d\<close>, the even one of two equally near.\<close>

definition round_quotient :: "nat \<Rightarrow> nat \<Rightarrow> nat" where
  "round_quotient n d =
     (let m = n div d; r = n mod d
      in if d < 2 * r \<or> (2 * r = d \<and> odd m) then m + 1 else m)"

text \<open>
  A normal result with biased exponent \<open>t + 1075\<close> and significand \<open>m\<close> (fraction
  \<open>m - 2\<^sup>5\<^sup>2\<close>) has the magnitude bits \<open>(t + 1074) \<sqdot> 2\<^sup>5\<^sup>2 + m\<close>, a subnormal one
  (\<open>t = -1074\<close>) has \<open>m\<close>, and a carry out of the significand moves into the exponent by
  itself. Everything from the bit pattern of infinity upwards is an overflow and gives
  infinity.
\<close>

definition round_magnitude :: "nat \<Rightarrow> nat \<Rightarrow> int \<Rightarrow> nat" where
  "round_magnitude p q e =
     (if p = 0 then 0
      else
        let t = ulp_exponent p q e;
            (n, d) = scale_frac p q (t - e)
        in min (nat (t + 1074) * 2 ^ 52 + round_quotient n d) inf_bits)"

definition round_pack :: "bool \<Rightarrow> nat \<Rightarrow> nat \<Rightarrow> int \<Rightarrow> float64" where
  "round_pack s p q e = pack s (round_magnitude p q e)"

text \<open>The exact result of an operation, before rounding.\<close>

datatype exact = ENaN | EInf bool | EZero bool | ERatio bool nat nat int

fun round_exact :: "exact \<Rightarrow> float64" where
  "round_exact ENaN = quiet_nan"
| "round_exact (EInf s) = pack s inf_bits"
| "round_exact (EZero s) = pack s 0"
| "round_exact (ERatio s p q e) = round_pack s p q e"

text \<open>A Go floating-point constant \<open>p / q\<close> converted to float64.\<close>

definition float64_const :: "nat \<Rightarrow> nat \<Rightarrow> float64" where
  "float64_const p q = round_pack False p q 0"

subsection \<open>The operations the package uses\<close>

definition with_sign :: "bool \<Rightarrow> nat \<Rightarrow> int" where
  "with_sign s n = (if s then - int n else int n)"

fun neg_view :: "fview \<Rightarrow> fview" where
  "neg_view NaN = NaN"
| "neg_view (Infinity s) = Infinity (\<not> s)"
| "neg_view (Finite s m e) = Finite (\<not> s) m e"

text \<open>
  An exact sum that is zero is \<open>-0\<close> only when both operands are negative (both are then
  \<open>-0\<close>); \<open>x + (-x)\<close> is \<open>+0\<close>.
\<close>

fun add_exact :: "fview \<Rightarrow> fview \<Rightarrow> exact" where
  "add_exact NaN y = ENaN"
| "add_exact x NaN = ENaN"
| "add_exact (Infinity s) (Infinity s') = (if s = s' then EInf s else ENaN)"
| "add_exact (Infinity s) (Finite s' m e) = EInf s"
| "add_exact (Finite s m e) (Infinity s') = EInf s'"
| "add_exact (Finite s1 m1 e1) (Finite s2 m2 e2) =
     (let e = min e1 e2;
          i = with_sign s1 (m1 * 2 ^ nat (e1 - e)) + with_sign s2 (m2 * 2 ^ nat (e2 - e))
      in if i = 0 then EZero (s1 \<and> s2) else ERatio (i < 0) (nat \<bar>i\<bar>) 1 e)"

fun mul_exact :: "fview \<Rightarrow> fview \<Rightarrow> exact" where
  "mul_exact NaN y = ENaN"
| "mul_exact x NaN = ENaN"
| "mul_exact (Infinity s) (Infinity s') = EInf (s \<noteq> s')"
| "mul_exact (Infinity s) (Finite s' m e) = (if m = 0 then ENaN else EInf (s \<noteq> s'))"
| "mul_exact (Finite s m e) (Infinity s') = (if m = 0 then ENaN else EInf (s \<noteq> s'))"
| "mul_exact (Finite s1 m1 e1) (Finite s2 m2 e2) =
     (if m1 * m2 = 0 then EZero (s1 \<noteq> s2) else ERatio (s1 \<noteq> s2) (m1 * m2) 1 (e1 + e2))"

fun div_exact :: "fview \<Rightarrow> fview \<Rightarrow> exact" where
  "div_exact NaN y = ENaN"
| "div_exact x NaN = ENaN"
| "div_exact (Infinity s) (Infinity s') = ENaN"
| "div_exact (Infinity s) (Finite s' m e) = EInf (s \<noteq> s')"
| "div_exact (Finite s m e) (Infinity s') = EZero (s \<noteq> s')"
| "div_exact (Finite s1 m1 e1) (Finite s2 m2 e2) =
     (if m2 = 0 then (if m1 = 0 then ENaN else EInf (s1 \<noteq> s2))
      else if m1 = 0 then EZero (s1 \<noteq> s2)
      else ERatio (s1 \<noteq> s2) m1 m2 (e1 - e2))"

fun isqrt :: "nat \<Rightarrow> nat" where
  "isqrt n =
     (if n < 4 then (if n = 0 then 0 else 1)
      else let r = 2 * isqrt (n div 4) in if (r + 1) * (r + 1) \<le> n then r + 1 else r)"

declare isqrt.simps [simp del]

text \<open>
  \<^verbatim>\<open>math.Sqrt\<close>. For \<open>m \<sqdot> 2\<^sup>e\<close> with \<open>e\<close> made even, the root is
  \<open>sqrt (m \<sqdot> 2\<^sup>1\<^sup>2\<^sup>8) \<sqdot> 2\<^sup>e\<^sup>/\<^sup>2\<^sup>-\<^sup>6\<^sup>4\<close>. The integer root \<open>r\<close> has at least 65 bits, so when the
  root is not exact every number strictly between \<open>r\<close> and \<open>r + 1\<close> rounds to the same
  53-bit significand, and \<open>r + 1/2\<close> is rounded in its place.
\<close>

fun sqrt_exact :: "fview \<Rightarrow> exact" where
  "sqrt_exact NaN = ENaN"
| "sqrt_exact (Infinity s) = (if s then ENaN else EInf False)"
| "sqrt_exact (Finite s m e) =
     (if m = 0 then EZero s
      else if s then ENaN
      else let m2 = (if even e then m else 2 * m);
               h = (if even e then e else e - 1) div 2;
               n = m2 * 2 ^ 128;
               r = isqrt n
           in if r * r = n then ERatio False r 1 (h - 64)
              else ERatio False (2 * r + 1) 2 (h - 64))"

fun lt_view :: "fview \<Rightarrow> fview \<Rightarrow> bool" where
  "lt_view NaN y = False"
| "lt_view x NaN = False"
| "lt_view (Infinity s) (Infinity s') = (s \<and> \<not> s')"
| "lt_view (Infinity s) (Finite s' m e) = s"
| "lt_view (Finite s m e) (Infinity s') = (\<not> s')"
| "lt_view (Finite s1 m1 e1) (Finite s2 m2 e2) =
     (let e = min e1 e2
      in with_sign s1 (m1 * 2 ^ nat (e1 - e)) < with_sign s2 (m2 * 2 ^ nat (e2 - e)))"

fun eq_view :: "fview \<Rightarrow> fview \<Rightarrow> bool" where
  "eq_view NaN y = False"
| "eq_view x NaN = False"
| "eq_view (Infinity s) (Infinity s') = (s = s')"
| "eq_view (Infinity s) (Finite s' m e) = False"
| "eq_view (Finite s m e) (Infinity s') = False"
| "eq_view (Finite s1 m1 e1) (Finite s2 m2 e2) =
     (let e = min e1 e2
      in with_sign s1 (m1 * 2 ^ nat (e1 - e)) = with_sign s2 (m2 * 2 ^ nat (e2 - e)))"

text \<open>Views and exact results with the sign dropped, and the ones that are not negative.\<close>

fun abs_view :: "fview \<Rightarrow> fview" where
  "abs_view NaN = NaN"
| "abs_view (Infinity s) = Infinity False"
| "abs_view (Finite s m e) = Finite False m e"

fun unsign :: "exact \<Rightarrow> exact" where
  "unsign ENaN = ENaN"
| "unsign (EInf s) = EInf False"
| "unsign (EZero s) = EZero False"
| "unsign (ERatio s p q e) = ERatio False p q e"

fun vpos :: "fview \<Rightarrow> bool" where
  "vpos NaN = False"
| "vpos (Infinity s) = (\<not> s)"
| "vpos (Finite s m e) = (\<not> s)"

fun epos :: "exact \<Rightarrow> bool" where
  "epos ENaN = False"
| "epos (EInf s) = (\<not> s)"
| "epos (EZero s) = (\<not> s)"
| "epos (ERatio s p q e) = (\<not> s)"

definition fadd :: "float64 \<Rightarrow> float64 \<Rightarrow> float64" where
  "fadd a b = round_exact (add_exact (view a) (view b))"

definition fsub :: "float64 \<Rightarrow> float64 \<Rightarrow> float64" where
  "fsub a b = round_exact (add_exact (view a) (neg_view (view b)))"

definition fmul :: "float64 \<Rightarrow> float64 \<Rightarrow> float64" where
  "fmul a b = round_exact (mul_exact (view a) (view b))"

definition fdiv :: "float64 \<Rightarrow> float64 \<Rightarrow> float64" where
  "fdiv a b = round_exact (div_exact (view a) (view b))"

definition fsqrt :: "float64 \<Rightarrow> float64" where
  "fsqrt a = round_exact (sqrt_exact (view a))"

text \<open>\<^verbatim>\<open>math.Abs\<close> clears the sign bit: \<^verbatim>\<open>Float64frombits(Float64bits(x) &^ (1 << 63))\<close>.\<close>

definition fabs :: "float64 \<Rightarrow> float64" where
  "fabs a = a AND NOT (push_bit 63 1)"

text \<open>Go's \<^verbatim>\<open><\<close> and \<^verbatim>\<open>==\<close> on float64: false as soon as an operand is a NaN.\<close>

definition flt :: "float64 \<Rightarrow> float64 \<Rightarrow> bool" where
  "flt a b = lt_view (view a) (view b)"

definition feq :: "float64 \<Rightarrow> float64 \<Rightarrow> bool" where
  "feq a b = eq_view (view a) (view b)"

section \<open>The package math3d\<close>

text \<open>\<^verbatim>\<open>const threshold float64 = 0.00001\<close>\<close>

definition threshold :: float64 where
  "threshold = float64_const 1 100000"

record Vector3 =
  X :: float64
  Y :: float64
  Z :: float64

definition UnitX :: Vector3 where
  "UnitX = \<lparr>X = float64_const 1 1, Y = float64_const 0 1, Z = float64_const 0 1\<rparr>"

definition UnitY :: Vector3 where
  "UnitY = \<lparr>X = float64_const 0 1, Y = float64_const 1 1, Z = float64_const 0 1\<rparr>"

definition UnitZ :: Vector3 where
  "UnitZ = \<lparr>X = float64_const 0 1, Y = float64_const 0 1, Z = float64_const 1 1\<rparr>"

definition Abs :: "Vector3 \<Rightarrow> float64" where
  "Abs v = fsqrt (fadd (fadd (fmul (X v) (X v)) (fmul (Y v) (Y v))) (fmul (Z v) (Z v)))"

definition Divide :: "Vector3 \<Rightarrow> float64 \<Rightarrow> Vector3" where
  "Divide v k = \<lparr>X = fdiv (X v) k, Y = fdiv (Y v) k, Z = fdiv (Z v) k\<rparr>"

definition Normalized :: "Vector3 \<Rightarrow> Vector3" where
  "Normalized v = Divide v (Abs v)"

definition Multiply :: "Vector3 \<Rightarrow> float64 \<Rightarrow> Vector3" where
  "Multiply v k = \<lparr>X = fmul (X v) k, Y = fmul (Y v) k, Z = fmul (Z v) k\<rparr>"

definition Add :: "Vector3 \<Rightarrow> Vector3 \<Rightarrow> Vector3" where
  "Add v v2 = \<lparr>X = fadd (X v) (X v2), Y = fadd (Y v) (Y v2), Z = fadd (Z v) (Z v2)\<rparr>"

text \<open>The method \<^verbatim>\<open>(v *Vector3) Subtract\<close>; the package-level function of the same name follows.\<close>

definition Vector3_Subtract :: "Vector3 \<Rightarrow> Vector3 \<Rightarrow> Vector3" where
  "Vector3_Subtract v v2 = \<lparr>X = fsub (X v) (X v2), Y = fsub (Y v) (Y v2), Z = fsub (Z v) (Z v2)\<rparr>"

definition Dot :: "Vector3 \<Rightarrow> Vector3 \<Rightarrow> float64" where
  "Dot v v2 = fadd (fadd (fmul (X v) (X v2)) (fmul (Y v) (Y v2))) (fmul (Z v) (Z v2))"

definition Cross :: "Vector3 \<Rightarrow> Vector3 \<Rightarrow> Vector3" where
  "Cross v v2 =
     \<lparr>X = fsub (fmul (Y v) (Z v2)) (fmul (Z v) (Y v2)),
      Y = fsub (fmul (Z v) (X v2)) (fmul (X v) (Z v2)),
      Z = fsub (fmul (X v) (Y v2)) (fmul (Y v) (X v2))\<rparr>"

definition Subtract :: "Vector3 \<Rightarrow> Vector3 \<Rightarrow> Vector3" where
  "Subtract pointA pointB =
     \<lparr>X = fsub (X pointA) (X pointB), Y = fsub (Y pointA) (Y pointB),
      Z = fsub (Z pointA) (Z pointB)\<rparr>"

definition Distance :: "Vector3 \<Rightarrow> Vector3 \<Rightarrow> float64" where
  "Distance pointA pointB = Abs (Subtract pointA pointB)"

definition Reflect :: "Vector3 \<Rightarrow> Vector3 \<Rightarrow> Vector3" where
  "Reflect v normal = Multiply (Vector3_Subtract v normal) (fmul (Dot v normal) (float64_const 2 1))"

definition Equal :: "Vector3 \<Rightarrow> Vector3 \<Rightarrow> bool" where
  "Equal v v2 =
     (flt (fabs (fsub (X v) (X v2))) threshold \<and>
      flt (fabs (fsub (Y v) (Y v2))) threshold \<and>
      flt (fabs (fsub (Z v) (Z v2))) threshold)"

definition Differ :: "Vector3 \<Rightarrow> Vector3 \<Rightarrow> bool" where
  "Differ v v2 = (\<not> Equal v v2)"

subsection \<open>Maps and dynamically typed values\<close>

text \<open>
  A value of type \<^verbatim>\<open>interface{}\<close> is nil or a value together with its dynamic type.
  \<open>OtherVal\<close> stands for a value of any dynamic type not listed, named by the type.
\<close>

datatype iface =
    NilIface
  | Float64Val float64
  | Float32Val "32 word"
  | IntVal int
  | StringVal string
  | BoolVal bool
  | OtherVal string

text \<open>
  A failed type assertion \<^verbatim>\<open>x.(float64)\<close> is a run-time panic
  (\<^verbatim>\<open>interface conversion: interface {} is string, not float64\<close>); the panic carries the
  value whose dynamic type was wrong.
\<close>

datatype panic = InterfaceConversion iface

fun is_float64 :: "iface \<Rightarrow> bool" where
  "is_float64 (Float64Val f) = True"
| "is_float64 v = False"

fun assert_float64 :: "iface \<Rightarrow> panic + float64" where
  "assert_float64 (Float64Val f) = Inr f"
| "assert_float64 v = Inl (InterfaceConversion v)"

text \<open>\<^verbatim>\<open>m[k]\<close> on a \<^verbatim>\<open>map[string]interface{}\<close>: the nil interface when the key is absent.\<close>

definition index :: "(string \<rightharpoonup> iface) \<Rightarrow> string \<Rightarrow> iface" where
  "index m k = (case m k of None \<Rightarrow> NilIface | Some v \<Rightarrow> v)"

definition AsMap :: "Vector3 \<Rightarrow> (string \<rightharpoonup> float64)" where
  "AsMap v = [''x'' \<mapsto> X v, ''y'' \<mapsto> Y v, ''z'' \<mapsto> Z v]"

definition VectorFromMap :: "(string \<rightharpoonup> iface) \<Rightarrow> panic + Vector3" where
  "VectorFromMap m =
     (case assert_float64 (index m ''x'') of
        Inl p \<Rightarrow> Inl p
      | Inr x \<Rightarrow>
          (case assert_float64 (index m ''y'') of
             Inl p \<Rightarrow> Inl p
           | Inr y \<Rightarrow>
               (case assert_float64 (index m ''z'') of
                  Inl p \<Rightarrow> Inl p
                | Inr z \<Rightarrow> Inr \<lparr>X = x, Y = y, Z = z\<rparr>)))"

text \<open>
  A \<^verbatim>\<open>map[string]float64\<close> is not a \<^verbatim>\<open>map[string]interface{}\<close>: to hand the result of
  \<open>AsMap\<close> to \<open>VectorFromMap\<close> a caller copies it entry by entry, each float64 stored in
  an interface value.
\<close>

definition as_iface_map :: "(string \<rightharpoonup> float64) \<Rightarrow> (string \<rightharpoonup> iface)" where
  "as_iface_map m = (\<lambda>k. map_option Float64Val (m k))"

text \<open>
  The textbook reflection \<open>v - 2 (v \<sqdot> n) n\<close>, written with the package's own operations,
  to compare \<open>Reflect\<close> with.
\<close>

definition conventional_reflect :: "Vector3 \<Rightarrow> Vector3 \<Rightarrow> Vector3" where
  "conventional_reflect v n = Vector3_Subtract v (Multiply n (fmul (float64_const 2 1) (Dot v n)))"

section \<open>Evaluating the model\<close>

lemma bitlen_numeral [simp]:
  "bitlen 0 = 0"
  "bitlen 1 = 1"
  "bitlen (numeral (Num.Bit0 k)) = Suc (bitlen (numeral k))"
  "bitlen (numeral (Num.Bit1 k)) = Suc (bitlen (numeral k))"
  by (simp_all add: bitlen.simps [of "numeral (Num.Bit0 k)"]
      bitlen.simps [of "numeral (Num.Bit1 k)"] bitlen.simps [of 0] bitlen.simps [of 1]
      bitlen.simps [of "Suc 0"] numeral_Bit0_div_2 numeral_Bit1_div_2)

lemmas f64_eval =
  float64_const_def round_pack_def round_magnitude_def round_quotient_def ulp_exponent_def
  scale_frac_def pack_def inf_bits_def Let_def
  view_def sign_bit_def magnitude_def fadd_def fsub_def fmul_def fdiv_def fsqrt_def
  fabs_def flt_def feq_def with_sign_def quiet_nan_def isqrt.simps threshold_def
  is_nan_def is_inf_def is_finite_def is_zero_def

text \<open>The constants of the package, as bit patterns.\<close>

lemma const_zero: "float64_const 0 1 = 0"
  by (simp add: f64_eval)

lemma const_one: "float64_const 1 1 = 0x3FF0000000000000"
  by (simp add: f64_eval)

lemma const_two: "float64_const 2 1 = 0x4000000000000000"
  by (simp add: f64_eval)

lemma threshold_bits: "threshold = 0x3EE4F8B588E368F1"
  by (simp add: f64_eval)

text \<open>Some results of the model against the values an IEEE-754 machine computes.\<close>

lemma model_one_third: "fdiv (float64_const 1 1) (float64_const 3 1) = 0x3FD5555555555555"
  by (simp add: f64_eval)

lemma model_sqrt_two: "fsqrt (float64_const 2 1) = 0x3FF6A09E667F3BCD"
  by (simp add: f64_eval)

lemma model_tenth_plus_fifth:
  "fadd (float64_const 1 10) (float64_const 2 10) = 0x3FD3333333333334"
  by (simp add: f64_eval)

lemma model_ties_to_even:
  "float64_const 9007199254740993 1 = 0x4340000000000000"
  "float64_const 9007199254740995 1 = 0x4340000000000002"
  by (simp_all add: f64_eval)

lemma model_subnormal: "fmul 0x0010000000000000 (float64_const 1 2) = 0x0008000000000000"
  by (simp add: f64_eval)

lemma model_underflow: "fmul 1 (float64_const 1 2) = 0" "fmul 3 (float64_const 1 2) = 2"
  by (simp_all add: f64_eval)

lemma model_overflow: "fadd 0x7FEFFFFFFFFFFFFF 0x7FEFFFFFFFFFFFFF = 0x7FF0000000000000"
  by (simp add: f64_eval)

lemma model_negative_third:
  "fdiv (fsub (float64_const 0 1) (float64_const 1 1)) (float64_const 3 1) = 0xBFD5555555555555"
  by (simp add: f64_eval)

lemma model_three_four_five:
  "Abs \<lparr>X = float64_const 3 1, Y = float64_const 4 1, Z = float64_const 0 1\<rparr> = float64_const 5 1"
  by (simp add: Abs_def f64_eval)

section \<open>Bit patterns and their views\<close>

lemma take_bit_pack: "take_bit 63 (pack s k) = take_bit 63 (word_of_nat k :: 64 word)"
  unfolding pack_def
  by (rule bit_word_eqI) (simp only: bit_simps split: if_splits, auto)

lemma magnitude_pack_sign: "magnitude (pack s k) = magnitude (pack False k)"
  by (simp only: magnitude_def take_bit_pack)

lemma magnitude_pack: "k < 2 ^ 63 \<Longrightarrow> magnitude (pack s k) = k"
  apply (simp only: magnitude_def take_bit_pack)
  apply (simp add: unsigned_take_bit_eq unat_of_nat take_bit_nat_eq_self)
  done

lemma bit_63_of_nat:
  assumes "k < 2 ^ 63"
  shows "\<not> bit (word_of_nat k :: 64 word) 63"
proof -
  have "k div 2 ^ 63 = 0"
    using assms by (rule div_less)
  then have "\<not> bit k 63"
    by (simp only: bit_iff_odd) simp
  then show ?thesis
    by (simp only: bit_of_nat_iff) simp
qed

lemma bit_63_sign: "bit (push_bit 63 1 :: 64 word) 63"
  by (simp only: bit_simps) simp

lemma sign_bit_pack: "k < 2 ^ 63 \<Longrightarrow> sign_bit (pack s k) = s"
  unfolding sign_bit_def pack_def
  using bit_63_of_nat [of k] bit_63_sign
  by (simp only: bit_or_iff split: if_splits) simp

lemma fabs_take_bit: "fabs w = take_bit 63 w"
  unfolding fabs_def
  by (rule bit_word_eqI) (simp only: bit_simps, auto)

lemma inf_bits_less: "inf_bits < 2 ^ 63"
  by (simp add: inf_bits_def)

lemma view_pack_inf: "view (pack s inf_bits) = Infinity s"
  using magnitude_pack [OF inf_bits_less, of s] sign_bit_pack [OF inf_bits_less, of s]
  by (simp add: view_def inf_bits_def)

lemma view_pack_zero: "view (pack s 0) = Finite s 0 (- 1074)"
  using magnitude_pack [of 0 s] sign_bit_pack [of 0 s]
  by (simp add: view_def)

lemma view_quiet_nan: "view quiet_nan = NaN"
  by (simp add: f64_eval)

lemma view_pack_le:
  assumes "k \<le> inf_bits"
  shows "view (pack s k) = Infinity s \<or> (\<exists>m e. view (pack s k) = Finite s m e)"
proof -
  have k: "k < 2 ^ 63"
    using assms inf_bits_less by simp
  have "k div 2 ^ 52 = 2047 \<Longrightarrow> k mod 2 ^ 52 = 0"
    using assms mult_div_mod_eq [of "2 ^ 52" k] by (simp add: inf_bits_def)
  then show ?thesis
    using magnitude_pack [OF k, of s] sign_bit_pack [OF k, of s]
    by (simp add: view_def Let_def)
qed

lemma round_magnitude_le: "round_magnitude p q e \<le> inf_bits"
  by (simp add: round_magnitude_def Let_def split: prod.splits)

lemma view_round_pack:
  "view (round_pack s p q e) = Infinity s \<or> (\<exists>m e'. view (round_pack s p q e) = Finite s m e')"
  unfolding round_pack_def by (rule view_pack_le [OF round_magnitude_le])

lemma magnitude_round_pack: "magnitude (round_pack s p q e) = magnitude (round_pack False p q e)"
  unfolding round_pack_def by (rule magnitude_pack_sign)

lemma magnitude_round_exact: "magnitude (round_exact r) = magnitude (round_exact (unsign r))"
proof (cases r)
  case ENaN
  then show ?thesis by simp
next
  case (EInf s)
  then show ?thesis using magnitude_pack_sign [of s inf_bits] by simp
next
  case (EZero s)
  then show ?thesis using magnitude_pack_sign [of s 0] by simp
next
  case (ERatio s p q e)
  then show ?thesis using magnitude_round_pack [of s p q e] by simp
qed

lemma vpos_round_exact: "epos r \<Longrightarrow> vpos (view (round_exact r))"
  using view_round_pack
  by (cases r) (auto simp: view_pack_inf view_pack_zero, metis vpos.simps)

lemma nan_round_exact: "view (round_exact r) = NaN \<longleftrightarrow> r = ENaN"
  using view_round_pack
  by (cases r) (auto simp: view_pack_inf view_pack_zero view_quiet_nan, metis fview.distinct)

section \<open>Sign symmetry and NaN propagation\<close>

lemma abs_view_magnitude: "magnitude a = magnitude b \<Longrightarrow> abs_view (view a) = abs_view (view b)"
  by (simp add: view_def Let_def)

lemma mul_exact_self: "mul_exact x x = mul_exact (abs_view x) (abs_view x)"
  by (cases x) simp_all

lemma fmul_self_magnitude: "magnitude a = magnitude b \<Longrightarrow> fmul a a = fmul b b"
  unfolding fmul_def using abs_view_magnitude [of a b] mul_exact_self [of "view a"] mul_exact_self [of "view b"]
  by simp

lemma with_sign_not: "with_sign (\<not> s) n = - with_sign s n"
  by (simp add: with_sign_def)

lemma add_exact_finite_swap:
  "unsign (add_exact (Finite s1 m1 e1) (Finite (\<not> s2) m2 e2)) =
   unsign (add_exact (Finite s2 m2 e2) (Finite (\<not> s1) m1 e1))"
proof -
  define a where "a = with_sign s1 (m1 * 2 ^ nat (e1 - min e1 e2))"
  define b where "b = with_sign s2 (m2 * 2 ^ nat (e2 - min e1 e2))"
  have l: "add_exact (Finite s1 m1 e1) (Finite (\<not> s2) m2 e2) =
      (if a - b = 0 then EZero (s1 \<and> \<not> s2) else ERatio (a - b < 0) (nat \<bar>a - b\<bar>) 1 (min e1 e2))"
    unfolding add_exact.simps Let_def with_sign_not a_def b_def by simp
  have r: "add_exact (Finite s2 m2 e2) (Finite (\<not> s1) m1 e1) =
      (if b - a = 0 then EZero (s2 \<and> \<not> s1) else ERatio (b - a < 0) (nat \<bar>b - a\<bar>) 1 (min e1 e2))"
    unfolding add_exact.simps Let_def with_sign_not a_def b_def min.commute [of e2 e1] by simp
  have "\<bar>a - b\<bar> = \<bar>b - a\<bar>"
    by simp
  then show ?thesis
    unfolding l r by auto
qed

lemma add_exact_swap: "unsign (add_exact x (neg_view y)) = unsign (add_exact y (neg_view x))"
proof (cases x)
  case NaN
  then show ?thesis by (cases y) simp_all
next
  case (Infinity s)
  then show ?thesis by (cases y) auto
next
  case x: (Finite s1 m1 e1)
  show ?thesis
  proof (cases y)
    case NaN
    then show ?thesis using x by simp
  next
    case (Infinity s)
    then show ?thesis using x by simp
  next
    case (Finite s2 m2 e2)
    show ?thesis
      unfolding x Finite neg_view.simps by (rule add_exact_finite_swap)
  qed
qed

lemma magnitude_fsub_swap: "magnitude (fsub a b) = magnitude (fsub b a)"
  unfolding fsub_def
  using magnitude_round_exact [of "add_exact (view a) (neg_view (view b))"]
    magnitude_round_exact [of "add_exact (view b) (neg_view (view a))"]
    add_exact_swap [of "view a" "view b"]
  by simp

lemma epos_mul_self: "x \<noteq> NaN \<Longrightarrow> epos (mul_exact x x)"
  by (cases x) simp_all

lemma epos_add: "vpos x \<Longrightarrow> vpos y \<Longrightarrow> epos (add_exact x y)"
proof (cases x; cases y)
  fix s1 m1 e1 s2 m2 e2
  assume x: "x = Finite s1 m1 e1" and y: "y = Finite s2 m2 e2" and "vpos x" "vpos y"
  then have s: "\<not> s1" "\<not> s2"
    by simp_all
  have "0 \<le> int (m1 * 2 ^ nat (e1 - min e1 e2)) + int (m2 * 2 ^ nat (e2 - min e1 e2))"
    by linarith
  then show "epos (add_exact x y)"
    using s by (simp add: x y Let_def with_sign_def del: of_nat_mult of_nat_add)
qed auto

lemma epos_sqrt: "vpos x \<Longrightarrow> epos (sqrt_exact x)"
  by (cases x) (auto simp: Let_def)

lemma vpos_not_nan: "vpos (view w) \<Longrightarrow> \<not> is_nan w"
  by (auto simp: is_nan_def)

lemma is_nan_fmul_self: "is_nan (fmul d d) \<longleftrightarrow> is_nan d"
  unfolding is_nan_def fmul_def nan_round_exact
  by (cases "view d") simp_all

lemma vpos_fmul_self: "\<not> is_nan d \<Longrightarrow> vpos (view (fmul d d))"
  unfolding is_nan_def fmul_def by (intro vpos_round_exact epos_mul_self)

lemma vpos_fadd: "vpos (view a) \<Longrightarrow> vpos (view b) \<Longrightarrow> vpos (view (fadd a b))"
  unfolding fadd_def by (intro vpos_round_exact epos_add)

lemma is_nan_fadd: "is_nan a \<or> is_nan b \<Longrightarrow> is_nan (fadd a b)"
  unfolding is_nan_def fadd_def nan_round_exact
  by (cases "view a"; cases "view b") auto

lemma vpos_fsqrt: "vpos (view a) \<Longrightarrow> vpos (view (fsqrt a))"
  unfolding fsqrt_def by (intro vpos_round_exact epos_sqrt)

lemma is_nan_fsqrt: "is_nan a \<Longrightarrow> is_nan (fsqrt a)"
  unfolding is_nan_def fsqrt_def nan_round_exact by simp

lemma is_nan_Abs: "is_nan (Abs v) \<longleftrightarrow> is_nan (X v) \<or> is_nan (Y v) \<or> is_nan (Z v)"
proof (cases "is_nan (X v) \<or> is_nan (Y v) \<or> is_nan (Z v)")
  case True
  then have "is_nan (fmul (X v) (X v)) \<or> is_nan (fmul (Y v) (Y v)) \<or> is_nan (fmul (Z v) (Z v))"
    by (simp add: is_nan_fmul_self)
  then have "is_nan (fadd (fadd (fmul (X v) (X v)) (fmul (Y v) (Y v))) (fmul (Z v) (Z v)))"
    using is_nan_fadd by blast
  then show ?thesis
    using True by (simp add: Abs_def is_nan_fsqrt)
next
  case False
  then have "vpos (view (fmul (X v) (X v)))" "vpos (view (fmul (Y v) (Y v)))"
    "vpos (view (fmul (Z v) (Z v)))"
    by (simp_all add: vpos_fmul_self)
  then have "vpos (view (Abs v))"
    unfolding Abs_def by (intro vpos_fsqrt vpos_fadd)
  then show ?thesis
    using False vpos_not_nan by blast
qed

lemma eq_view_refl: "eq_view x x \<longleftrightarrow> x \<noteq> NaN"
  by (cases x) simp_all

lemma feq_refl: "feq a a \<longleftrightarrow> \<not> is_nan a"
  by (simp add: feq_def is_nan_def eq_view_refl)

lemma Distance_swap: "Distance p1 p2 = Distance p2 p1"
  unfolding Distance_def Abs_def Subtract_def
  using fmul_self_magnitude [OF magnitude_fsub_swap [of "X p1" "X p2"]]
    fmul_self_magnitude [OF magnitude_fsub_swap [of "Y p1" "Y p2"]]
    fmul_self_magnitude [OF magnitude_fsub_swap [of "Z p1" "Z p2"]]
  by simp

lemma is_nan_fsub_finite: "is_finite a \<Longrightarrow> is_finite b \<Longrightarrow> \<not> is_nan (fsub a b)"
  unfolding is_nan_def is_finite_def fsub_def nan_round_exact
  by (cases "view a"; cases "view b") (auto simp: Let_def)

lemma fsub_self: "fsub x x = (if is_finite x then 0 else quiet_nan)"
  unfolding fsub_def is_finite_def
  by (cases "view x") (auto simp: with_sign_def pack_def)

lemma flt_zero_threshold: "flt (fabs 0) threshold"
  by (simp add: f64_eval)

lemma flt_nan_threshold: "\<not> flt (fabs quiet_nan) threshold"
  by (simp add: f64_eval)

lemma self_close: "flt (fabs (fsub x x)) threshold \<longleftrightarrow> is_finite x"
  by (simp add: fsub_self flt_zero_threshold flt_nan_threshold)

lemma Equal_self: "Equal v v \<longleftrightarrow> is_finite (X v) \<and> is_finite (Y v) \<and> is_finite (Z v)"
  by (simp add: Equal_def self_close)

lemma fdiv_by_zero: "is_zero z \<Longrightarrow> is_nan (fdiv x z) \<or> is_inf (fdiv x z)"
  unfolding is_zero_def is_nan_def is_inf_def fdiv_def
  by (cases "view x"; cases "view z") (auto simp: view_quiet_nan view_pack_inf)

section \<open>Maps, commutativity and classification\<close>

lemma mul_exact_commute: "mul_exact x y = mul_exact y x"
  by (cases x; cases y) (auto simp: mult.commute add.commute)

lemma fmul_commute: "fmul a b = fmul b a"
  by (simp add: fmul_def mul_exact_commute [of "view a"])

lemma is_finite_iff: "is_finite c \<longleftrightarrow> \<not> is_nan c \<and> \<not> is_inf c"
  by (cases "view c") (simp_all add: is_finite_def is_nan_def is_inf_def)

lemma assert_float64_index:
  "assert_float64 (index m k) = Inr f \<longleftrightarrow> m k = Some (Float64Val f)"
  by (cases "m k"; cases "index m k") (auto simp: index_def)

lemma assert_float64_isl:
  "isl (assert_float64 (index m k)) \<longleftrightarrow> m k = None \<or> (\<exists>v. m k = Some v \<and> \<not> is_float64 v)"
proof (cases "m k")
  case None
  then show ?thesis by (simp add: index_def)
next
  case (Some v)
  then show ?thesis by (cases v) (simp_all add: index_def)
qed

lemma VectorFromMap_Inr:
  "VectorFromMap m = Inr v \<longleftrightarrow>
   m ''x'' = Some (Float64Val (X v)) \<and> m ''y'' = Some (Float64Val (Y v)) \<and>
   m ''z'' = Some (Float64Val (Z v))"
  unfolding VectorFromMap_def
  by (cases v) (auto simp flip: assert_float64_index split: sum.splits)

lemma VectorFromMap_isl:
  "isl (VectorFromMap m) \<longleftrightarrow>
   isl (assert_float64 (index m ''x'')) \<or> isl (assert_float64 (index m ''y'')) \<or>
   isl (assert_float64 (index m ''z''))"
  unfolding VectorFromMap_def by (auto split: sum.splits)

lemma VectorFromMap_cong:
  assumes "m1 ''x'' = m2 ''x''" "m1 ''y'' = m2 ''y''" "m1 ''z'' = m2 ''z''"
  shows "VectorFromMap m1 = VectorFromMap m2"
  unfolding VectorFromMap_def index_def assms by (rule refl)

lemma roundtrip: "VectorFromMap (as_iface_map (AsMap v)) = Inr v"
  by (simp add: VectorFromMap_Inr as_iface_map_def AsMap_def)

section \<open>The claims\<close>

text \<open>
  C1. For every vector \<open>v\<close> and normal \<open>n\<close>, \<open>Reflect v n\<close> is, component by component,
  \<open>(v - n)\<close> multiplied by the scalar \<open>2 \<sqdot> Dot v n\<close> (float64 subtraction and
  multiplication; the product with 2 is the same in either order). This is not the
  conventional reflection \<open>v - 2 (v \<sqdot> n) n\<close>: for \<open>v = n = UnitX\<close> the code returns
  \<open>(0, 0, 0)\<close> and the conventional formula \<open>(-1, 0, 0)\<close>.
\<close>
theorem Reflect_literal_formula:
  "Reflect v n =
     \<lparr>X = fmul (fsub (X v) (X n)) (fmul (float64_const 2 1) (Dot v n)),
      Y = fmul (fsub (Y v) (Y n)) (fmul (float64_const 2 1) (Dot v n)),
      Z = fmul (fsub (Z v) (Z n)) (fmul (float64_const 2 1) (Dot v n))\<rparr> \<and>
   Dot v n = fadd (fadd (fmul (X v) (X n)) (fmul (Y v) (Y n))) (fmul (Z v) (Z n)) \<and>
   Reflect UnitX UnitX = \<lparr>X = 0, Y = 0, Z = 0\<rparr> \<and>
   conventional_reflect UnitX UnitX = \<lparr>X = 0xBFF0000000000000, Y = 0, Z = 0\<rparr> \<and>
   Reflect UnitX UnitX \<noteq> conventional_reflect UnitX UnitX"
proof -
  have general: "Reflect v n =
     \<lparr>X = fmul (fsub (X v) (X n)) (fmul (float64_const 2 1) (Dot v n)),
      Y = fmul (fsub (Y v) (Y n)) (fmul (float64_const 2 1) (Dot v n)),
      Z = fmul (fsub (Z v) (Z n)) (fmul (float64_const 2 1) (Dot v n))\<rparr>"
    by (simp add: Reflect_def Multiply_def Vector3_Subtract_def fmul_commute [of "Dot v n"])
  have dot: "Dot UnitX UnitX = 0x3FF0000000000000"
    by (simp add: Dot_def UnitX_def f64_eval)
  have r: "Reflect UnitX UnitX = \<lparr>X = 0, Y = 0, Z = 0\<rparr>"
    unfolding Reflect_def dot by (simp add: Multiply_def Vector3_Subtract_def UnitX_def f64_eval)
  have c: "conventional_reflect UnitX UnitX = \<lparr>X = 0xBFF0000000000000, Y = 0, Z = 0\<rparr>"
    unfolding conventional_reflect_def dot
    by (simp add: Multiply_def Vector3_Subtract_def UnitX_def f64_eval)
  show ?thesis
    using general r c by (simp add: Dot_def)
qed

text \<open>
  C2. \<open>VectorFromMap m\<close> ends in a run-time panic (the function has no error result) if
  and only if one of the keys \<^verbatim>\<open>"x"\<close>, \<^verbatim>\<open>"y"\<close>, \<^verbatim>\<open>"z"\<close> is missing from \<open>m\<close> or holds a
  value whose dynamic type is not float64; when the three keys hold float64 values the
  vector with these components is returned.
\<close>
theorem VectorFromMap_panics_iff:
  "(isl (VectorFromMap m) \<longleftrightarrow>
      (\<exists>k\<in>{''x'', ''y'', ''z''}. m k = None \<or> (\<exists>v. m k = Some v \<and> \<not> is_float64 v))) \<and>
   (m ''x'' = Some (Float64Val a) \<and> m ''y'' = Some (Float64Val b) \<and>
    m ''z'' = Some (Float64Val c) \<longrightarrow> VectorFromMap m = Inr \<lparr>X = a, Y = b, Z = c\<rparr>)"
  by (simp add: VectorFromMap_isl assert_float64_isl VectorFromMap_Inr)

text \<open>A map with three float64 entries, one with a string under \<^verbatim>\<open>"y"\<close>, one without \<^verbatim>\<open>"z"\<close>.\<close>
theorem VectorFromMap_panics_iff_witness:
  "VectorFromMap [''x'' \<mapsto> Float64Val 1, ''y'' \<mapsto> Float64Val 2, ''z'' \<mapsto> Float64Val 3] =
     Inr \<lparr>X = 1, Y = 2, Z = 3\<rparr> \<and>
   isl (VectorFromMap [''x'' \<mapsto> Float64Val 1, ''y'' \<mapsto> StringVal ''two'', ''z'' \<mapsto> Float64Val 3]) \<and>
   isl (VectorFromMap [''x'' \<mapsto> Float64Val 1, ''y'' \<mapsto> Float64Val 2])"
  using VectorFromMap_panics_iff
      [of "[''x'' \<mapsto> Float64Val 1, ''y'' \<mapsto> Float64Val 2, ''z'' \<mapsto> Float64Val 3]" 1 2 3]
    VectorFromMap_panics_iff
      [of "[''x'' \<mapsto> Float64Val 1, ''y'' \<mapsto> StringVal ''two'', ''z'' \<mapsto> Float64Val 3]"]
    VectorFromMap_panics_iff [of "[''x'' \<mapsto> Float64Val 1, ''y'' \<mapsto> Float64Val 2]"]
  by simp

text \<open>
  C3. \<open>Equal a b\<close> is true if and only if on each of the three axes the float64 absolute
  value of the float64 difference is strictly below \<open>threshold\<close>, the float64 constant
  \<open>0.00001\<close>. \<open>Equal (0,0,0) (0,0,0.000005)\<close> is true and \<open>Equal (0,0,0) (0,0,0.00002)\<close> is
  false.
\<close>
theorem Equal_iff_axes_below_threshold:
  "(Equal a b \<longleftrightarrow>
      flt (fabs (fsub (X a) (X b))) threshold \<and>
      flt (fabs (fsub (Y a) (Y b))) threshold \<and>
      flt (fabs (fsub (Z a) (Z b))) threshold) \<and>
   threshold = float64_const 1 100000 \<and>
   Equal \<lparr>X = float64_const 0 1, Y = float64_const 0 1, Z = float64_const 0 1\<rparr>
         \<lparr>X = float64_const 0 1, Y = float64_const 0 1, Z = float64_const 5 1000000\<rparr> \<and>
   \<not> Equal \<lparr>X = float64_const 0 1, Y = float64_const 0 1, Z = float64_const 0 1\<rparr>
           \<lparr>X = float64_const 0 1, Y = float64_const 0 1, Z = float64_const 2 100000\<rparr>"
proof -
  have z: "flt (fabs (fsub (float64_const 0 1) (float64_const 0 1))) threshold"
    by (simp add: f64_eval)
  have below: "flt (fabs (fsub (float64_const 0 1) (float64_const 5 1000000))) threshold"
    by (simp add: f64_eval)
  have above: "\<not> flt (fabs (fsub (float64_const 0 1) (float64_const 2 100000))) threshold"
    by (simp add: f64_eval)
  show ?thesis
    using z below above by (simp add: Equal_def threshold_def)
qed

text \<open>
  C4, as amended. For every \<open>v\<close>, building a vector from the map of \<open>v\<close> returns exactly
  \<open>v\<close>; the result is \<open>Equal\<close> to \<open>v\<close> if and only if the three components of \<open>v\<close> are
  finite. As stated, for arbitrary \<open>v\<close> including NaN and infinite components, the claim
  fails: \<open>x - x\<close> is NaN for a NaN or infinite \<open>x\<close>, and no comparison with a NaN is true.
\<close>
theorem roundtrip_exact_Equal_iff_finite:
  "VectorFromMap (as_iface_map (AsMap v)) = Inr v \<and>
   (Equal v v \<longleftrightarrow> is_finite (X v) \<and> is_finite (Y v) \<and> is_finite (Z v))"
  by (simp add: roundtrip Equal_self)

text \<open>The vector \<open>(3, 0, 0)\<close>.\<close>
theorem roundtrip_exact_Equal_iff_finite_witness:
  "VectorFromMap (as_iface_map (AsMap \<lparr>X = float64_const 3 1, Y = 0, Z = 0\<rparr>)) =
     Inr \<lparr>X = float64_const 3 1, Y = 0, Z = 0\<rparr> \<and>
   Equal \<lparr>X = float64_const 3 1, Y = 0, Z = 0\<rparr> \<lparr>X = float64_const 3 1, Y = 0, Z = 0\<rparr>"
proof -
  have "is_finite (float64_const 3 1)" "is_finite 0"
    by (simp_all add: f64_eval)
  then show ?thesis
    using roundtrip_exact_Equal_iff_finite [of "\<lparr>X = float64_const 3 1, Y = 0, Z = 0\<rparr>"]
    by simp
qed

text \<open>The round trip of \<open>(NaN, 0, 0)\<close> returns the same vector, which is not \<open>Equal\<close> to itself.\<close>
theorem roundtrip_nan_counterexample:
  "VectorFromMap (as_iface_map (AsMap \<lparr>X = quiet_nan, Y = 0, Z = 0\<rparr>)) =
     Inr \<lparr>X = quiet_nan, Y = 0, Z = 0\<rparr> \<and>
   is_nan quiet_nan \<and>
   \<not> Equal \<lparr>X = quiet_nan, Y = 0, Z = 0\<rparr> \<lparr>X = quiet_nan, Y = 0, Z = 0\<rparr>"
  by (simp add: roundtrip Equal_self is_finite_def is_nan_def view_quiet_nan)

text \<open>
  C5, as amended. \<open>Distance p1 p2 == Distance p2 p1\<close> (Go's \<^verbatim>\<open>==\<close> on float64) holds exactly
  when no difference \<open>p1 - p2\<close> of an axis is NaN, and so whenever all six components are
  finite. As stated, for arbitrary points, the claim fails: a NaN component makes both
  distances NaN, and NaN is not equal to itself.
\<close>
theorem Distance_symmetric_unless_nan:
  "(feq (Distance p1 p2) (Distance p2 p1) \<longleftrightarrow>
      \<not> (is_nan (fsub (X p1) (X p2)) \<or> is_nan (fsub (Y p1) (Y p2)) \<or>
         is_nan (fsub (Z p1) (Z p2)))) \<and>
   (is_finite (X p1) \<and> is_finite (Y p1) \<and> is_finite (Z p1) \<and>
    is_finite (X p2) \<and> is_finite (Y p2) \<and> is_finite (Z p2) \<longrightarrow>
    feq (Distance p1 p2) (Distance p2 p1))"
proof -
  have "feq (Distance p1 p2) (Distance p2 p1) \<longleftrightarrow> \<not> is_nan (Distance p1 p2)"
    using Distance_swap [of p2 p1] by (simp add: feq_refl)
  also have "\<dots> \<longleftrightarrow> \<not> (is_nan (fsub (X p1) (X p2)) \<or> is_nan (fsub (Y p1) (Y p2)) \<or>
         is_nan (fsub (Z p1) (Z p2)))"
    by (simp add: Distance_def is_nan_Abs Subtract_def)
  finally show ?thesis
    using is_nan_fsub_finite by blast
qed

text \<open>The points \<open>(3, 0, 0)\<close> and \<open>(0, 0, 0)\<close>.\<close>
theorem Distance_symmetric_unless_nan_witness:
  "feq (Distance \<lparr>X = float64_const 3 1, Y = 0, Z = 0\<rparr> \<lparr>X = 0, Y = 0, Z = 0\<rparr>)
       (Distance \<lparr>X = 0, Y = 0, Z = 0\<rparr> \<lparr>X = float64_const 3 1, Y = 0, Z = 0\<rparr>)"
proof -
  have fin: "is_finite (float64_const 3 1)" "is_finite 0"
    by (simp_all add: f64_eval)
  show ?thesis
    by (rule Distance_symmetric_unless_nan [THEN conjunct2, THEN mp]) (use fin in simp)
qed

text \<open>The points \<open>(NaN, 0, 0)\<close> and \<open>(0, 0, 0)\<close>.\<close>
theorem Distance_nan_counterexample:
  "\<not> feq (Distance \<lparr>X = quiet_nan, Y = 0, Z = 0\<rparr> \<lparr>X = 0, Y = 0, Z = 0\<rparr>)
         (Distance \<lparr>X = 0, Y = 0, Z = 0\<rparr> \<lparr>X = quiet_nan, Y = 0, Z = 0\<rparr>)"
  by (simp add: Distance_def Abs_def Subtract_def f64_eval)

text \<open>
  C6. \<open>Normalized v\<close> is \<open>v\<close> divided component by component by its magnitude
  \<open>Abs v = sqrt (x\<^sup>2 + y\<^sup>2 + z\<^sup>2)\<close>. There is no special case for a magnitude of zero:
  every component of the result is then an infinity or a NaN, returned as an ordinary
  value.
\<close>
theorem Normalized_divides_by_Abs:
  "Normalized v = \<lparr>X = fdiv (X v) (Abs v), Y = fdiv (Y v) (Abs v), Z = fdiv (Z v) (Abs v)\<rparr> \<and>
   Abs v = fsqrt (fadd (fadd (fmul (X v) (X v)) (fmul (Y v) (Y v))) (fmul (Z v) (Z v))) \<and>
   (is_zero (Abs v) \<longrightarrow>
      (is_inf (X (Normalized v)) \<or> is_nan (X (Normalized v))) \<and>
      (is_inf (Y (Normalized v)) \<or> is_nan (Y (Normalized v))) \<and>
      (is_inf (Z (Normalized v)) \<or> is_nan (Z (Normalized v))))"
  using fdiv_by_zero [of "Abs v"]
  by (auto simp: Normalized_def Divide_def) (simp add: Abs_def)

text \<open>
  The vector whose \<open>x\<close> is the smallest subnormal \<open>2\<^sup>-\<^sup>1\<^sup>0\<^sup>7\<^sup>4\<close> (bit pattern 1): its square
  underflows to zero, the magnitude is zero, and the result is \<open>(+\<infinity>, NaN, NaN)\<close>.
\<close>
theorem Normalized_divides_by_Abs_witness:
  "is_zero (Abs \<lparr>X = 1, Y = 0, Z = 0\<rparr>) \<and>
   is_inf (X (Normalized \<lparr>X = 1, Y = 0, Z = 0\<rparr>)) \<and>
   is_nan (Y (Normalized \<lparr>X = 1, Y = 0, Z = 0\<rparr>)) \<and>
   is_nan (Z (Normalized \<lparr>X = 1, Y = 0, Z = 0\<rparr>))"
proof -
  have a: "Abs \<lparr>X = 1, Y = 0, Z = 0\<rparr> = 0"
    by (simp add: Abs_def f64_eval)
  have z: "is_zero (0 :: float64)"
    by (simp add: f64_eval)
  have "fdiv 1 0 = pack False inf_bits" "fdiv 0 0 = quiet_nan"
    by (simp_all add: f64_eval)
  then have "\<not> is_nan (fdiv 1 0)" "\<not> is_inf (fdiv 0 0)"
    by (simp_all add: is_nan_def is_inf_def view_pack_inf view_quiet_nan)
  then show ?thesis
    using Normalized_divides_by_Abs [of "\<lparr>X = 1, Y = 0, Z = 0\<rparr>"] z
    unfolding a by auto
qed

text \<open>
  C7. \<open>Cross a b\<close> is the right-handed cross product
  \<open>(a.y b.z - a.z b.y, a.z b.x - a.x b.z, a.x b.y - a.y b.x)\<close> in float64 arithmetic, and
  \<open>Cross (1,0,0) (0,1,0)\<close> is \<open>UnitZ = (0,0,1)\<close>.
\<close>
theorem Cross_right_handed:
  "Cross a b =
     \<lparr>X = fsub (fmul (Y a) (Z b)) (fmul (Z a) (Y b)),
      Y = fsub (fmul (Z a) (X b)) (fmul (X a) (Z b)),
      Z = fsub (fmul (X a) (Y b)) (fmul (Y a) (X b))\<rparr> \<and>
   Cross UnitX UnitY = UnitZ \<and>
   UnitX = \<lparr>X = float64_const 1 1, Y = float64_const 0 1, Z = float64_const 0 1\<rparr> \<and>
   UnitY = \<lparr>X = float64_const 0 1, Y = float64_const 1 1, Z = float64_const 0 1\<rparr> \<and>
   UnitZ = \<lparr>X = float64_const 0 1, Y = float64_const 0 1, Z = float64_const 1 1\<rparr>"
proof -
  have "Cross UnitX UnitY = UnitZ"
    by (simp add: Cross_def UnitX_def UnitY_def UnitZ_def f64_eval)
  then show ?thesis
    by (simp add: Cross_def UnitX_def UnitY_def UnitZ_def)
qed

text \<open>
  C8. For all vectors \<open>a\<close> and \<open>b\<close>, whatever their components, \<open>Differ a b\<close> is the
  negation of \<open>Equal a b\<close>: exactly one of the two is true.
\<close>
theorem Differ_negates_Equal:
  "Differ a b = (\<not> Equal a b) \<and> (Equal a b \<noteq> Differ a b)"
  by (simp add: Differ_def)

text \<open>
  C9, as amended. \<open>Equal v v\<close> is true if and only if the three components of \<open>v\<close> are
  finite; \<open>Differ v v\<close> is true if and only if a component is a NaN or an infinity. As
  stated (reflexive on every input without NaN) the claim fails at an infinite component:
  \<open>\<infinity> - \<infinity>\<close> is NaN.
\<close>
theorem Equal_reflexive_iff_finite:
  "(Equal v v \<longleftrightarrow> is_finite (X v) \<and> is_finite (Y v) \<and> is_finite (Z v)) \<and>
   (Differ v v \<longleftrightarrow>
      is_nan (X v) \<or> is_inf (X v) \<or> is_nan (Y v) \<or> is_inf (Y v) \<or> is_nan (Z v) \<or> is_inf (Z v))"
  by (auto simp: Differ_def Equal_self is_finite_iff)

text \<open>The vectors \<open>(3, 0, 0)\<close> and \<open>(NaN, 0, 0)\<close>.\<close>
theorem Equal_reflexive_iff_finite_witness:
  "Equal \<lparr>X = float64_const 3 1, Y = 0, Z = 0\<rparr> \<lparr>X = float64_const 3 1, Y = 0, Z = 0\<rparr> \<and>
   Differ \<lparr>X = quiet_nan, Y = 0, Z = 0\<rparr> \<lparr>X = quiet_nan, Y = 0, Z = 0\<rparr>"
proof -
  have "is_finite (float64_const 3 1)" "is_finite 0" "is_nan quiet_nan"
    by (simp_all add: f64_eval)
  then show ?thesis
    using Equal_reflexive_iff_finite [of "\<lparr>X = float64_const 3 1, Y = 0, Z = 0\<rparr>"]
      Equal_reflexive_iff_finite [of "\<lparr>X = quiet_nan, Y = 0, Z = 0\<rparr>"]
    by simp
qed

text \<open>The vector \<open>(+\<infinity>, 0, 0)\<close> has no NaN component and is not \<open>Equal\<close> to itself.\<close>
theorem Equal_infinity_counterexample:
  "\<not> is_nan (pack False inf_bits) \<and> \<not> is_nan 0 \<and>
   \<not> Equal \<lparr>X = pack False inf_bits, Y = 0, Z = 0\<rparr> \<lparr>X = pack False inf_bits, Y = 0, Z = 0\<rparr>"
proof -
  have "view (0 :: float64) = Finite False 0 (- 1074)"
    by (simp add: f64_eval)
  then show ?thesis
    by (simp add: Equal_self is_finite_def is_nan_def view_pack_inf)
qed

text \<open>
  C10. Two maps that agree on the keys \<^verbatim>\<open>"x"\<close>, \<^verbatim>\<open>"y"\<close>, \<^verbatim>\<open>"z"\<close> give the same result of
  \<open>VectorFromMap\<close>; when these keys hold float64 values the result is the vector of these
  values, whatever else the map contains.
\<close>
theorem VectorFromMap_depends_on_xyz:
  assumes "\<forall>k\<in>{''x'', ''y'', ''z''}. m1 k = m2 k"
  shows "VectorFromMap m1 = VectorFromMap m2 \<and>
    (m1 ''x'' = Some (Float64Val a) \<and> m1 ''y'' = Some (Float64Val b) \<and>
     m1 ''z'' = Some (Float64Val c) \<longrightarrow> VectorFromMap m2 = Inr \<lparr>X = a, Y = b, Z = c\<rparr>)"
proof -
  have "VectorFromMap m1 = VectorFromMap m2"
    using assms by (intro VectorFromMap_cong) simp_all
  then show ?thesis
    using assms by (auto simp: VectorFromMap_Inr)
qed

text \<open>A map with two more entries than \<^verbatim>\<open>"x"\<close>, \<^verbatim>\<open>"y"\<close>, \<^verbatim>\<open>"z"\<close>.\<close>
theorem VectorFromMap_depends_on_xyz_witness:
  "VectorFromMap [''x'' \<mapsto> Float64Val 1, ''y'' \<mapsto> Float64Val 2, ''z'' \<mapsto> Float64Val 3,
      ''w'' \<mapsto> StringVal ''extra'', ''id'' \<mapsto> IntVal 7] =
   Inr \<lparr>X = 1, Y = 2, Z = 3\<rparr>"
  using VectorFromMap_depends_on_xyz
    [of "[''x'' \<mapsto> Float64Val 1, ''y'' \<mapsto> Float64Val 2, ''z'' \<mapsto> Float64Val 3]"
        "[''x'' \<mapsto> Float64Val 1, ''y'' \<mapsto> Float64Val 2, ''z'' \<mapsto> Float64Val 3,
          ''w'' \<mapsto> StringVal ''extra'', ''id'' \<mapsto> IntVal 7]" 1 2 3]
  by simp

end
